theory Spec2Isabelle
  imports Main "HOL-Library.Word" "HOL-Library.Multiset"
begin

section \<open>JavaScript strings\<close>

text \<open>
  A JavaScript string is a sequence of UTF-16 code units. String literals of the source
  are ASCII apart from the list bullet, so they are written \<open>js ''...''\<close>.
\<close>

type_synonym jsstring = "16 word list"

definition js :: "string \<Rightarrow> jsstring" where
  "js s = map of_char s"

text \<open>
  \<open>String.prototype.trim\<close> removes WhiteSpace and LineTerminator code points from both
  ends: TAB, LF, VT, FF, CR, SP, NBSP, U+1680, U+2000..U+200A, U+2028, U+2029, U+202F,
  U+205F, U+3000 and U+FEFF.
\<close>

definition isWhiteSpace :: "16 word \<Rightarrow> bool" where
  "isWhiteSpace c =
     ((0x09 \<le> c \<and> c \<le> 0x0D) \<or> c = 0x20 \<or> c = 0xA0 \<or> c = 0x1680
      \<or> (0x2000 \<le> c \<and> c \<le> 0x200A) \<or> c = 0x2028 \<or> c = 0x2029 \<or> c = 0x202F
      \<or> c = 0x205F \<or> c = 0x3000 \<or> c = 0xFEFF)"

definition trim :: "jsstring \<Rightarrow> jsstring" where
  "trim s = rev (dropWhile isWhiteSpace (rev (dropWhile isWhiteSpace s)))"

text \<open>
  \<open>String.prototype.toLowerCase\<close> is the Unicode lower-case mapping. The source only ever
  compares a lower-cased tag name with an ASCII literal, and the code points whose mapping is
  ASCII are the ASCII ones (A to Z go to a to z, the others stay) and U+212A KELVIN SIGN,
  which goes to k. Every other code point goes to a string with a non-ASCII code unit; the
  model leaves it as it is, so a lower-cased string equals an ASCII literal in the model
  exactly when it does in JavaScript.
\<close>

definition toLowerCase :: "jsstring \<Rightarrow> jsstring" where
  "toLowerCase s =
     map (\<lambda>c. if 0x41 \<le> c \<and> c \<le> 0x5A then c + 0x20
              else if c = 0x212A then 0x6B
              else c) s"

text \<open>The decimal rendering of a non-negative integer in a template literal.\<close>

fun toString :: "nat \<Rightarrow> jsstring" where
  "toString n =
     (if n < 10 then [0x30 + of_nat n]
      else toString (n div 10) @ [0x30 + of_nat (n mod 10)])"

declare toString.simps [simp del]

section \<open>The parsed document\<close>

text \<open>
  The DOM tree the parser hands over: text nodes, element nodes, and every other node type
  (comments), which the formatter skips.
\<close>

datatype node = TextNode jsstring | CommentNode jsstring | ElementNode element
  and element = Element (tagName: jsstring) (childNodes: "node list")

text \<open>\<open>Element.children\<close>: the child nodes that are elements, in document order.\<close>

fun elementsOf :: "node list \<Rightarrow> element list" where
  "elementsOf [] = []"
| "elementsOf (TextNode _ # ns) = elementsOf ns"
| "elementsOf (CommentNode _ # ns) = elementsOf ns"
| "elementsOf (ElementNode e # ns) = e # elementsOf ns"

definition children :: "element \<Rightarrow> element list" where
  "children e = elementsOf (childNodes e)"

text \<open>
  \<open>Element.textContent\<close>: the text of all descendant text nodes in document order;
  comments contribute nothing. It is never null for an element, so the source's
  \<open>element.textContent || ''\<close> is the text content itself.
\<close>

fun textContent :: "element \<Rightarrow> jsstring"
  and textOfNodes :: "node list \<Rightarrow> jsstring"
  and textOfNode :: "node \<Rightarrow> jsstring" where
  "textContent (Element t ns) = textOfNodes ns"
| "textOfNodes [] = []"
| "textOfNodes (n # ns) = textOfNode n @ textOfNodes ns"
| "textOfNode (TextNode s) = s"
| "textOfNode (CommentNode s) = []"
| "textOfNode (ElementNode e) = textContent e"

section \<open>The document model of the docx library\<close>

datatype headingLevel =
  HEADING_1 | HEADING_2 | HEADING_3 | HEADING_4 | HEADING_5 | HEADING_6 | TITLE

datatype alignmentType = CENTER

text \<open>An option a constructor call leaves out is \<open>None\<close>; sizes are in half-points.\<close>

record textRun =
  run_text :: jsstring
  run_bold :: "bool option"
  run_italics :: "bool option"
  run_underline :: "unit option"
  run_strike :: "bool option"
  run_font :: "jsstring option"
  run_size :: "nat option"
  run_color :: "jsstring option"
  run_shading :: "jsstring option"

definition TextRun :: "jsstring \<Rightarrow> textRun" where
  "TextRun t =
     \<lparr>run_text = t, run_bold = None, run_italics = None, run_underline = None,
      run_strike = None, run_font = None, run_size = None, run_color = None,
      run_shading = None\<rparr>"

record borderLine =
  border_color :: jsstring
  border_size :: nat
  border_style :: jsstring

record docxParagraph =
  par_children :: "textRun list"
  par_heading :: "headingLevel option"
  par_alignment :: "alignmentType option"
  par_spacing_before :: "nat option"
  par_spacing_after :: "nat option"
  par_indent_left :: "nat option"
  par_border_left :: "borderLine option"
  par_border_bottom :: "borderLine option"
  par_shading :: "jsstring option"

definition Paragraph :: "textRun list \<Rightarrow> docxParagraph" where
  "Paragraph runs =
     \<lparr>par_children = runs, par_heading = None, par_alignment = None,
      par_spacing_before = None, par_spacing_after = None, par_indent_left = None,
      par_border_left = None, par_border_bottom = None, par_shading = None\<rparr>"

record tableCell =
  cell_children :: "docxParagraph list"
  cell_shading :: "jsstring option"

record tableRow =
  row_children :: "tableCell list"

datatype widthType = PERCENTAGE

record table =
  table_rows :: "tableRow list"
  table_width_size :: nat
  table_width_type :: widthType

datatype block = ParagraphBlock docxParagraph | TableBlock table

section \<open>The block and inline formatters\<close>

text \<open>The \<open>switch\<close> of \<open>createHeading\<close> that sets \<open>fontSize\<close>.\<close>

fun headingFontSize :: "headingLevel \<Rightarrow> nat" where
  "headingFontSize HEADING_1 = 32"
| "headingFontSize HEADING_2 = 28"
| "headingFontSize HEADING_3 = 26"
| "headingFontSize HEADING_4 = 24"
| "headingFontSize HEADING_5 = 22"
| "headingFontSize HEADING_6 = 20"
| "headingFontSize TITLE = 36"

definition createHeading :: "jsstring \<Rightarrow> headingLevel \<Rightarrow> docxParagraph" where
  "createHeading t level =
     (let fontSize = headingFontSize level
      in (Paragraph
           [(TextRun t)\<lparr>run_bold := Some True, run_size := Some fontSize,
              run_color := Some (js ''2c3e50'')\<rparr>])
         \<lparr>par_heading := Some level,
          par_spacing_before := Some (if level = HEADING_1 then 400 else 300),
          par_spacing_after := Some 200\<rparr>)"

text \<open>The run of one inline child element, chosen by its lower-cased tag.\<close>

definition inlineRun :: "jsstring \<Rightarrow> jsstring \<Rightarrow> textRun" where
  "inlineRun tag t =
     (if tag = js ''strong'' \<or> tag = js ''b'' then (TextRun t)\<lparr>run_bold := Some True\<rparr>
      else if tag = js ''em'' \<or> tag = js ''i'' then (TextRun t)\<lparr>run_italics := Some True\<rparr>
      else if tag = js ''u'' then (TextRun t)\<lparr>run_underline := Some ()\<rparr>
      else if tag = js ''s'' \<or> tag = js ''strike'' then (TextRun t)\<lparr>run_strike := Some True\<rparr>
      else if tag = js ''code'' then
        (TextRun t)\<lparr>run_font := Some (js ''Courier New''), run_size := Some 18,
          run_shading := Some (js ''f4f4f4'')\<rparr>
      else if tag = js ''a'' then
        (TextRun t)\<lparr>run_color := Some (js ''0066cc''), run_underline := Some ()\<rparr>
      else TextRun t)"

text \<open>
  \<open>processInlineElements\<close> pushes onto the array it is given; the model returns the
  extended array. The loop over \<open>element.childNodes\<close> is \<open>processNodes\<close>.
\<close>

fun processNodes :: "node list \<Rightarrow> textRun list \<Rightarrow> textRun list" where
  "processNodes [] textRuns = textRuns"
| "processNodes (TextNode t # ns) textRuns =
     processNodes ns (if trim t \<noteq> [] then textRuns @ [TextRun t] else textRuns)"
| "processNodes (ElementNode el # ns) textRuns =
     (let t = textContent el in
      if trim t = [] then processNodes ns textRuns
      else processNodes ns (textRuns @ [inlineRun (toLowerCase (tagName el)) t]))"
| "processNodes (CommentNode _ # ns) textRuns = processNodes ns textRuns"

definition processInlineElements :: "element \<Rightarrow> textRun list \<Rightarrow> textRun list" where
  "processInlineElements element textRuns = processNodes (childNodes element) textRuns"

definition createParagraph :: "element \<Rightarrow> docxParagraph" where
  "createParagraph element =
     (let textRuns = processInlineElements element [];
          textRuns = (if length textRuns = 0 then textRuns @ [TextRun (textContent element)]
                      else textRuns)
      in (Paragraph textRuns)\<lparr>par_spacing_after := Some 200\<rparr>)"

text \<open>The bullet of an unordered list item, U+2022.\<close>

definition bullet :: jsstring where
  "bullet = [0x2022]"

text \<open>
  The \<open>forEach\<close> of \<open>createList\<close> over \<open>listElement.children\<close>; \<open>index\<close> is the position
  of the child among all element children of the list.
\<close>

fun createListItems :: "bool \<Rightarrow> nat \<Rightarrow> element list \<Rightarrow> docxParagraph list" where
  "createListItems isOrdered index [] = []"
| "createListItems isOrdered index (li # rest) =
     (if toLowerCase (tagName li) = js ''li'' then
        (let bulletText = (if isOrdered then toString (index + 1) @ js ''.'' else bullet);
             t = textContent li
         in [(Paragraph [TextRun (bulletText @ js '' '' @ t)])
               \<lparr>par_spacing_after := Some 100, par_indent_left := Some 720\<rparr>])
      else [])
     @ createListItems isOrdered (index + 1) rest"

definition createList :: "element \<Rightarrow> docxParagraph list" where
  "createList listElement =
     (let isOrdered = (toLowerCase (tagName listElement) = js ''ol'')
      in createListItems isOrdered 0 (children listElement))"

definition createBlockquote :: "jsstring \<Rightarrow> docxParagraph" where
  "createBlockquote t =
     (Paragraph [(TextRun t)\<lparr>run_italics := Some True, run_color := Some (js ''666666'')\<rparr>])
     \<lparr>par_spacing_before := Some 200, par_spacing_after := Some 200,
      par_indent_left := Some 720,
      par_border_left :=
        Some \<lparr>border_color = js ''007bff'', border_size = 6, border_style = js ''single''\<rparr>\<rparr>"

definition createCodeBlock :: "jsstring \<Rightarrow> docxParagraph" where
  "createCodeBlock t =
     (Paragraph [(TextRun t)\<lparr>run_font := Some (js ''Courier New''), run_size := Some 18\<rparr>])
     \<lparr>par_spacing_before := Some 200, par_spacing_after := Some 200,
      par_shading := Some (js ''f4f4f4'')\<rparr>"

definition createHorizontalRule :: docxParagraph where
  "createHorizontalRule =
     (Paragraph [TextRun []])
     \<lparr>par_spacing_before := Some 200, par_spacing_after := Some 200,
      par_border_bottom :=
        Some \<lparr>border_color = js ''e9ecef'', border_size = 6, border_style = js ''single''\<rparr>\<rparr>"

text \<open>
  \<open>HTMLTableElement.rows\<close> and \<open>HTMLTableRowElement.cells\<close> as the HTML standard defines
  them: the \<open>tr\<close> children of the table's \<open>thead\<close> children, then the \<open>tr\<close> elements that
  are children of the table or of its \<open>tbody\<close> children, then those of its \<open>tfoot\<close> children,
  each group in tree order; the cells of a row are its \<open>td\<close> and \<open>th\<close> children.
\<close>

definition hasTag :: "string \<Rightarrow> element \<Rightarrow> bool" where
  "hasTag t e = (toLowerCase (tagName e) = js t)"

definition rows :: "element \<Rightarrow> element list" where
  "rows tableElement =
     concat (map (\<lambda>s. filter (hasTag ''tr'') (children s))
               (filter (hasTag ''thead'') (children tableElement)))
     @ concat (map (\<lambda>c. if hasTag ''tr'' c then [c]
                         else if hasTag ''tbody'' c then filter (hasTag ''tr'') (children c)
                         else [])
                 (children tableElement))
     @ concat (map (\<lambda>s. filter (hasTag ''tr'') (children s))
                 (filter (hasTag ''tfoot'') (children tableElement)))"

definition cells :: "element \<Rightarrow> element list" where
  "cells row = filter (\<lambda>c. hasTag ''td'' c \<or> hasTag ''th'' c) (children row)"

definition isHeader :: "nat \<Rightarrow> element \<Rightarrow> bool" where
  "isHeader rowIndex cell = (rowIndex = 0 \<or> toLowerCase (tagName cell) = js ''th'')"

definition createCell :: "nat \<Rightarrow> element \<Rightarrow> tableCell" where
  "createCell rowIndex cell =
     \<lparr>cell_children =
        [Paragraph [(TextRun (textContent cell))\<lparr>run_bold := Some (isHeader rowIndex cell)\<rparr>]],
      cell_shading = (if isHeader rowIndex cell then Some (js ''f8f9fa'') else None)\<rparr>"

fun createRows :: "nat \<Rightarrow> element list \<Rightarrow> tableRow list" where
  "createRows rowIndex [] = []"
| "createRows rowIndex (row # rest) =
     \<lparr>row_children = map (createCell rowIndex) (cells row)\<rparr>
     # createRows (rowIndex + 1) rest"

definition createTable :: "element \<Rightarrow> table" where
  "createTable tableElement =
     \<lparr>table_rows = createRows 0 (rows tableElement),
      table_width_size = 100, table_width_type = PERCENTAGE\<rparr>"

text \<open>One pass of the \<open>switch\<close> of \<open>processHtmlElements\<close>: the blocks one element yields.\<close>

definition processElement :: "element \<Rightarrow> block list" where
  "processElement element =
     (let tag = toLowerCase (tagName element) in
      if tag = js ''h1'' then [ParagraphBlock (createHeading (textContent element) HEADING_1)]
      else if tag = js ''h2'' then [ParagraphBlock (createHeading (textContent element) HEADING_2)]
      else if tag = js ''h3'' then [ParagraphBlock (createHeading (textContent element) HEADING_3)]
      else if tag = js ''h4'' then [ParagraphBlock (createHeading (textContent element) HEADING_4)]
      else if tag = js ''h5'' then [ParagraphBlock (createHeading (textContent element) HEADING_5)]
      else if tag = js ''h6'' then [ParagraphBlock (createHeading (textContent element) HEADING_6)]
      else if tag = js ''p'' then [ParagraphBlock (createParagraph element)]
      else if tag = js ''ul'' \<or> tag = js ''ol'' then map ParagraphBlock (createList element)
      else if tag = js ''blockquote'' then
        [ParagraphBlock (createBlockquote (textContent element))]
      else if tag = js ''pre'' then [ParagraphBlock (createCodeBlock (textContent element))]
      else if tag = js ''table'' then [TableBlock (createTable element)]
      else if tag = js ''hr'' then [ParagraphBlock createHorizontalRule]
      else if trim (textContent element) \<noteq> [] then [ParagraphBlock (createParagraph element)]
      else [])"

fun processHtmlElements :: "element list \<Rightarrow> block list" where
  "processHtmlElements [] = []"
| "processHtmlElements (element # elements) =
     processElement element @ processHtmlElements elements"

section \<open>Collaborators of the export\<close>

text \<open>
  A value a collaborator throws (or a promise rejects with): an \<open>Error\<close> instance with its
  message, any value that is not an \<open>Error\<close> instance, or an \<open>Error\<close> instance whose
  \<open>message\<close> property throws the given value when it is read.
\<close>

datatype thrown = Error jsstring | NonError jsstring | ThrowingError thrown

text \<open>
  An editor instance is known to the export by what its two methods do when called:
  \<open>getHTML\<close> returns the serialized markup or throws, \<open>destroy\<close> returns or throws.
\<close>

datatype editor = Editor (getHTML: "thrown + jsstring") (destroy: "thrown option")

text \<open>The structured document of the editor (a node type, its text, its child nodes).\<close>

datatype json = JSONContent jsstring "jsstring option" "json list"

text \<open>
  The \<open>content\<close> argument is untyped in the source. An object is given by the five fields the
  export reads; \<open>editor\<close> is \<open>Some\<close> exactly when the field holds an instance of \<open>Editor\<close>,
  and a \<open>json\<close> field that is present holds a document object.
\<close>

record contentObject =
  editor :: "editor option"
  html :: "jsstring option"
  json :: "json option"
  title :: "jsstring option"
  articleId :: "jsstring option"

datatype content =
    StringContent jsstring
  | NumberContent int
  | BooleanContent bool
  | NullContent
  | UndefinedContent
  | ObjectContent contentObject

record exportOptions =
  includeMetadata :: "bool option"
  customFilename :: "jsstring option"

type_synonym blob = "8 word list"

record docxDocument =
  doc_creator :: jsstring
  doc_title :: jsstring
  doc_description :: jsstring
  doc_children :: "block list"

text \<open>
  Modelled from the spec: the metadata record that \<open>createMetadata\<close> of the base class
  \<open>ExportStrategy\<close> returns (the class is imported by the source and is not part of it):
  format tag, checksum placeholder, article identifier, title.
\<close>

record exportMetadata =
  meta_format :: jsstring
  meta_checksum :: jsstring
  meta_articleId :: "jsstring option"
  meta_title :: jsstring

record exportResult =
  success :: bool
  filename :: "jsstring option"
  blob :: "blob option"
  error :: "jsstring option"
  metadata :: "exportMetadata option"

text \<open>
  What the export calls and does not define: the HTML parser (the \<open>body\<close> element of the
  parsed document), the clock as the three strings read from it, the editor constructor, the
  serializer \<open>Packer.toBlob\<close>, \<open>saveAs\<close>, and the two methods of the base class. Each call
  that can throw returns the thrown value on the left.
\<close>

record env =
  parseFromString :: "jsstring \<Rightarrow> element"
  nowLocaleDateString :: jsstring
  nowLocaleTimeString :: jsstring
  footerLocaleDateString :: jsstring
  newEditor :: "json \<Rightarrow> thrown + editor"
  toBlob :: "docxDocument \<Rightarrow> thrown + blob"
  saveAs :: "blob \<Rightarrow> jsstring \<Rightarrow> thrown option"
  generateFilename :: "jsstring \<Rightarrow> jsstring \<Rightarrow> jsstring option \<Rightarrow> thrown + jsstring"
  createMetadata ::
    "jsstring \<Rightarrow> jsstring \<Rightarrow> jsstring option \<Rightarrow> jsstring \<Rightarrow> thrown + exportMetadata"

text \<open>The side effects of a call, in the order they happen.\<close>

datatype event =
    EditorCreated editor
  | EditorDestroyed editor
  | SaveAsCalled blob jsstring
  | ConsoleError thrown

section \<open>The document assembler\<close>

definition titleParagraph :: "jsstring \<Rightarrow> docxParagraph" where
  "titleParagraph t =
     (Paragraph [(TextRun t)\<lparr>run_bold := Some True, run_size := Some 32\<rparr>])
     \<lparr>par_heading := Some TITLE, par_alignment := Some CENTER,
      par_spacing_after := Some 400\<rparr>"

definition timestampParagraph :: "env \<Rightarrow> docxParagraph" where
  "timestampParagraph e =
     (Paragraph
        [(TextRun (js ''Exported: '' @ nowLocaleDateString e @ js '' ''
                   @ nowLocaleTimeString e))
         \<lparr>run_size := Some 18, run_color := Some (js ''666666'')\<rparr>])
     \<lparr>par_alignment := Some CENTER, par_spacing_after := Some 400\<rparr>"

definition formatParagraph :: docxParagraph where
  "formatParagraph =
     (Paragraph
        [(TextRun (js ''Format: Microsoft Word Document''))
         \<lparr>run_size := Some 18, run_color := Some (js ''666666'')\<rparr>])
     \<lparr>par_alignment := Some CENTER, par_spacing_after := Some 800\<rparr>"

definition footerParagraph :: "env \<Rightarrow> docxParagraph" where
  "footerParagraph e =
     (Paragraph
        [(TextRun (js ''Generated by BOFU Article Editor on '' @ footerLocaleDateString e))
         \<lparr>run_size := Some 16, run_color := Some (js ''999999'')\<rparr>])
     \<lparr>par_alignment := Some CENTER, par_spacing_before := Some 800\<rparr>"

text \<open>The array \<open>sections\<close> of \<open>createDocxFromHtml\<close> when the document is created.\<close>

definition sections :: "env \<Rightarrow> jsstring \<Rightarrow> jsstring \<Rightarrow> exportOptions \<Rightarrow> block list" where
  "sections e htmlContent t options =
     [ParagraphBlock (titleParagraph t)]
     @ (if includeMetadata options = Some True
        then [ParagraphBlock (timestampParagraph e), ParagraphBlock formatParagraph]
        else [])
     @ processHtmlElements (children (parseFromString e htmlContent))
     @ [ParagraphBlock (footerParagraph e)]"

definition createDocxFromHtml ::
  "env \<Rightarrow> jsstring \<Rightarrow> jsstring \<Rightarrow> exportOptions \<Rightarrow> thrown + blob" where
  "createDocxFromHtml e htmlContent t options =
     toBlob e
       \<lparr>doc_creator = js ''BOFU Article Editor'', doc_title = t,
        doc_description = js ''Exported article: '' @ t,
        doc_children = sections e htmlContent t options\<rparr>"

section \<open>The export\<close>

text \<open>\<open>content.title || articleTitle\<close>: the empty string is falsy.\<close>

definition titleOr :: "contentObject \<Rightarrow> jsstring \<Rightarrow> jsstring" where
  "titleOr c articleTitle =
     (case title c of None \<Rightarrow> articleTitle | Some t \<Rightarrow> if t = [] then articleTitle else t)"

definition unsupported :: thrown where
  "unsupported = Error (js ''Unsupported content format for DOCX export'')"

text \<open>
  The last two branches of the chain of tests on \<open>content\<close>: a \<open>json\<close> field goes through a
  temporary editor, and anything else is unsupported.
\<close>

definition resolveJson ::
  "env \<Rightarrow> contentObject \<Rightarrow> event list \<Rightarrow> (thrown + jsstring \<times> jsstring) \<times> event list" where
  "resolveJson e c log =
     (case json c of
        Some j \<Rightarrow>
          (case newEditor e j of
             Inl x \<Rightarrow> (Inl x, log)
           | Inr tempEditor \<Rightarrow>
               (case getHTML tempEditor of
                  Inl x \<Rightarrow> (Inl x, log @ [EditorCreated tempEditor])
                | Inr h \<Rightarrow>
                    (case destroy tempEditor of
                       Some x \<Rightarrow>
                         (Inl x, log @ [EditorCreated tempEditor, EditorDestroyed tempEditor])
                     | None \<Rightarrow>
                         (Inr (h, titleOr c (js ''Untitled Article'')),
                          log @ [EditorCreated tempEditor, EditorDestroyed tempEditor]))))
      | None \<Rightarrow> (Inl unsupported, log))"

text \<open>
  The chain of tests on \<open>content\<close> at the head of the \<open>try\<close> block: the markup and the title,
  or the value thrown, with the events of the temporary editor appended to the log. The empty
  string in \<open>html\<close> is falsy.
\<close>

fun resolveContent ::
  "env \<Rightarrow> content \<Rightarrow> event list \<Rightarrow> (thrown + jsstring \<times> jsstring) \<times> event list" where
  "resolveContent e (StringContent s) log = (Inr (s, js ''Untitled Article''), log)"
| "resolveContent e (ObjectContent c) log =
     (case editor c of
        Some ed \<Rightarrow>
          (case getHTML ed of
             Inl x \<Rightarrow> (Inl x, log)
           | Inr h \<Rightarrow> (Inr (h, titleOr c (js ''Untitled Article'')), log))
      | None \<Rightarrow>
          (case html c of
             Some h \<Rightarrow>
               (if h \<noteq> [] then (Inr (h, titleOr c (js ''Untitled Article'')), log)
                else resolveJson e c log)
           | None \<Rightarrow> resolveJson e c log))"
| "resolveContent e _ log = (Inl unsupported, log)"

text \<open>\<open>content.articleId\<close>: undefined on a string.\<close>

fun articleIdOf :: "content \<Rightarrow> jsstring option" where
  "articleIdOf (ObjectContent c) = articleId c"
| "articleIdOf _ = None"

text \<open>The \<open>try\<close> block of \<open>export\<close>: the result it returns, or the value it throws.\<close>

definition exportTry ::
  "env \<Rightarrow> content \<Rightarrow> exportOptions \<Rightarrow> event list \<Rightarrow> (thrown + exportResult) \<times> event list"
  where
  "exportTry e c options log =
     (case resolveContent e c log of
        (Inl x, log1) \<Rightarrow> (Inl x, log1)
      | (Inr (htmlContent, articleTitle), log1) \<Rightarrow>
          (case createDocxFromHtml e htmlContent articleTitle options of
             Inl x \<Rightarrow> (Inl x, log1)
           | Inr docxBlob \<Rightarrow>
               (case generateFilename e articleTitle (js ''docx'') (customFilename options) of
                  Inl x \<Rightarrow> (Inl x, log1)
                | Inr fname \<Rightarrow>
                    (case saveAs e docxBlob fname of
                       Some x \<Rightarrow> (Inl x, log1 @ [SaveAsCalled docxBlob fname])
                     | None \<Rightarrow>
                         (case createMetadata e (js ''docx'') [] (articleIdOf c) articleTitle of
                            Inl x \<Rightarrow> (Inl x, log1 @ [SaveAsCalled docxBlob fname])
                          | Inr m \<Rightarrow>
                              (Inr \<lparr>success = True, filename = Some fname,
                                    blob = Some docxBlob, error = None,
                                    metadata = Some m\<rparr>,
                               log1 @ [SaveAsCalled docxBlob fname]))))))"

text \<open>The object the \<open>catch\<close> clause returns, for the error message it has chosen.\<close>

definition failure :: "jsstring \<Rightarrow> exportResult" where
  "failure m =
     \<lparr>success = False, filename = None, blob = None, error = Some m, metadata = None\<rparr>"

text \<open>
  The \<open>catch\<close> clause after its call of \<open>console.error\<close>: it reads \<open>error.message\<close> when the
  thrown value is an \<open>Error\<close> instance, and that read is not inside any \<open>try\<close>, so what it
  throws leaves \<open>export\<close>.
\<close>

definition catchClause :: "thrown \<Rightarrow> thrown + exportResult" where
  "catchClause x =
     (case x of
        Error m \<Rightarrow> Inr (failure m)
      | NonError v \<Rightarrow> Inr (failure (js ''Unknown DOCX export error''))
      | ThrowingError y \<Rightarrow> Inl y)"

text \<open>
  The whole of \<open>export\<close>: the result it returns (the promise resolves with), or the value it
  throws (the promise rejects with), and the events.
\<close>

definition export ::
  "env \<Rightarrow> content \<Rightarrow> exportOptions \<Rightarrow> event list \<Rightarrow> (thrown + exportResult) \<times> event list"
  where
  "export e c options log =
     (case exportTry e c options log of
        (Inl x, log1) \<Rightarrow> (catchClause x, log1 @ [ConsoleError x])
      | (Inr r, log1) \<Rightarrow> (Inr r, log1))"

section \<open>The recognized tags, and example inputs\<close>



text \<open>The case labels of the \<open>switch\<close> of \<open>processHtmlElements\<close>.\<close>

definition recognizedTags :: "jsstring list" where
  "recognizedTags =
     map js [''h1'', ''h2'', ''h3'', ''h4'', ''h5'', ''h6'', ''p'', ''ul'', ''ol'',
             ''blockquote'', ''pre'', ''table'', ''hr'']"

text \<open>A table of two rows: a first row with one cell, and a second row with the given cells.\<close>

definition exampleRow :: "element list \<Rightarrow> node" where
  "exampleRow cs = ElementNode (Element (js ''TR'') (map ElementNode cs))"

definition exampleTable :: "element list \<Rightarrow> element" where
  "exampleTable cs =
     Element (js ''TABLE'')
       [exampleRow [Element (js ''TD'') [TextNode (js ''a'')]], exampleRow cs]"

section \<open>The content normalizer and the orchestrator\<close>

text \<open>
  C1 (the temporary editor is destroyed exactly once on every exit path). The source calls
  \<open>tempEditor.destroy()\<close> after \<open>tempEditor.getHTML()\<close> with no \<open>finally\<close>: when the
  extraction throws, control goes to the \<open>catch\<close> clause and the editor is never destroyed.
  The theorem runs the export on a \<open>json\<close> content whose temporary editor throws in
  \<open>getHTML\<close>: the call returns the failure, and its events are the creation of the editor
  and the diagnostic log entry, with no destruction.
\<close>

theorem export_json_getHTML_throws_editor_not_destroyed:
  "export (e\<lparr>newEditor := \<lambda>j. Inr (Editor (Inl (Error (js ''boom''))) None)\<rparr>)
     (ObjectContent \<lparr>editor = None, html = None, json = Some j, title = t, articleId = a\<rparr>)
     options [] =
   (Inr \<lparr>success = False, filename = None, blob = None, error = Some (js ''boom''),
         metadata = None\<rparr>,
    [EditorCreated (Editor (Inl (Error (js ''boom''))) None),
     ConsoleError (Error (js ''boom''))])"
  by (simp add: export_def exportTry_def resolveJson_def catchClause_def failure_def)

text \<open>
  The same for every temporary editor whose extraction throws; and when the extraction
  returns, the editor is destroyed once, whatever \<open>destroy\<close> itself does and whatever fails
  later in the export.
\<close>

lemma resolveJson_getHTML_throws:
  assumes "json c = Some j" and "newEditor e j = Inr ed" and "getHTML ed = Inl x"
  shows "resolveJson e c log = (Inl x, log @ [EditorCreated ed])"
  using assms by (simp add: resolveJson_def)

lemma resolveJson_getHTML_returns:
  assumes "json c = Some j" and "newEditor e j = Inr ed" and "getHTML ed = Inr h"
  shows "snd (resolveJson e c log) = log @ [EditorCreated ed, EditorDestroyed ed]"
  using assms by (simp add: resolveJson_def split: option.splits)

text \<open>
  C3 (unsupported shape). The export of the number 42 returns the failure result with the
  message \<open>Unsupported content format for DOCX export\<close> and no artifact; the only event is
  the diagnostic log entry, so nothing is saved.
\<close>

theorem export_number_42_unsupported:
  "export e (NumberContent 42) options log =
     (Inr \<lparr>success = False, filename = None, blob = None,
           error = Some (js ''Unsupported content format for DOCX export''),
           metadata = None\<rparr>,
      log @ [ConsoleError (Error (js ''Unsupported content format for DOCX export''))])"
  by (simp add: export_def exportTry_def catchClause_def failure_def unsupported_def)





text \<open>
  C10 (an empty \<open>html\<close> field). An object whose \<open>html\<close> field is the empty string, with no
  editor and no \<open>json\<close> field, does not take the \<open>html\<close> branch: the export returns the
  unsupported-format failure.
\<close>

theorem export_empty_html_unsupported:
  "export e
     (ObjectContent \<lparr>editor = None, html = Some [], json = None, title = t, articleId = a\<rparr>)
     options log =
     (Inr \<lparr>success = False, filename = None, blob = None,
           error = Some (js ''Unsupported content format for DOCX export''),
           metadata = None\<rparr>,
      log @ [ConsoleError (Error (js ''Unsupported content format for DOCX export''))])"
  by (simp add: export_def exportTry_def resolveJson_def catchClause_def failure_def
      unsupported_def)

section \<open>Lists\<close>

text \<open>
  C2 (list numbering). The marker of an ordered list item is built from \<open>index + 1\<close>, where
  \<open>index\<close> counts every element child of the list, also those that are not \<open>li\<close> and are
  skipped. An \<open>ol\<close> with a \<open>span\<close> before its only \<open>li\<close> yields the single marker \<open>2.\<close>
  and not \<open>1.\<close>.
\<close>

theorem createList_ordered_skips_number:
  "createList
     (Element (js ''OL'')
        [ElementNode (Element (js ''SPAN'') [TextNode (js ''x'')]),
         ElementNode (Element (js ''LI'') [TextNode (js ''a'')])]) =
   [(Paragraph [TextRun (js ''2. a'')])
      \<lparr>par_spacing_after := Some 100, par_indent_left := Some 720\<rparr>]"
  by (simp add: createList_def children_def js_def toLowerCase_def toString.simps)

text \<open>
  What holds of the markers: every item of an unordered list starts with the bullet, and
  an ordered list whose element children are all \<open>li\<close> is numbered from \<open>index + 1\<close> on.
\<close>

lemma createListItems_unordered:
  "list_all (\<lambda>p. \<exists>t. par_children p = [TextRun (bullet @ js '' '' @ t)])
     (createListItems False i es)"
  by (induction es arbitrary: i) (auto simp: Paragraph_def)

lemma createListItems_ordered_all_li:
  "list_all (\<lambda>li. toLowerCase (tagName li) = js ''li'') es \<Longrightarrow>
     map par_children (createListItems True i es) =
       map (\<lambda>(k, li). [TextRun (toString (k + 1) @ js ''.'' @ js '' '' @ textContent li)])
         (enumerate i es)"
  by (induction es arbitrary: i) (auto simp: Paragraph_def)

section \<open>Headings\<close>

text \<open>
  The table of \<open>createHeading\<close>: a heading has one run, sized from the table, which is 32,
  28, 26, 24, 22, 20 for levels 1 to 6, strictly decreasing, with a Title entry larger than
  all of them.
\<close>

lemma heading_font_sizes:
  "map run_size (par_children (createHeading t level)) = [Some (headingFontSize level)]
   \<and> map headingFontSize [HEADING_1, HEADING_2, HEADING_3, HEADING_4, HEADING_5, HEADING_6]
       = [32, 28, 26, 24, 22, 20]
   \<and> headingFontSize HEADING_6 < headingFontSize HEADING_5
   \<and> headingFontSize HEADING_5 < headingFontSize HEADING_4
   \<and> headingFontSize HEADING_4 < headingFontSize HEADING_3
   \<and> headingFontSize HEADING_3 < headingFontSize HEADING_2
   \<and> headingFontSize HEADING_2 < headingFontSize HEADING_1
   \<and> headingFontSize HEADING_1 < headingFontSize TITLE"
  by (simp add: createHeading_def Paragraph_def TextRun_def)

text \<open>
  C5 (heading sizes: the Title block is strictly larger than every heading). The table of
  \<open>createHeading\<close> sizes the Title level at 36, but the only paragraph of the Title level
  that the export builds, the title paragraph of the document, does not go through the table:
  its size is the literal 32, which is the size of a level 1 heading.
\<close>

theorem title_paragraph_size_not_from_table:
  "map par_heading [titleParagraph t] = [Some TITLE]
   \<and> map run_size (par_children (titleParagraph t)) = [Some 32]
   \<and> map run_size (par_children (createHeading t' HEADING_1)) = [Some 32]
   \<and> map run_size (par_children (createHeading t TITLE)) = [Some 36]"
  by (simp add: titleParagraph_def createHeading_def Paragraph_def TextRun_def)

section \<open>Tables\<close>

lemma createRows_nth:
  "r < length rs \<Longrightarrow>
     row_children (createRows i rs ! r) = map (createCell (i + r)) (cells (rs ! r))"
proof (induction rs arbitrary: i r)
  case Nil
  then show ?case by simp
next
  case (Cons a rs)
  show ?case
  proof (cases r)
    case 0
    then show ?thesis by simp
  next
    case (Suc k)
    with Cons.prems have "k < length rs" by simp
    from Cons.IH [OF this, of "i + 1"] Suc show ?thesis by simp
  qed
qed

lemma createTable_row:
  "r < length (rows t) \<Longrightarrow>
     row_children (table_rows (createTable t) ! r) = map (createCell r) (cells (rows t ! r))"
  using createRows_nth [of r "rows t" 0] by (simp add: createTable_def)

lemma zip_map_self: "zip xs (map f xs) = map (\<lambda>x. (x, f x)) xs"
  by (induction xs) auto

lemma rows_exampleTable:
  "rows (exampleTable cs) =
     [Element (js ''TR'') [ElementNode (Element (js ''TD'') [TextNode (js ''a'')])],
      Element (js ''TR'') (map ElementNode cs)]"
  by (simp add: exampleTable_def exampleRow_def rows_def children_def hasTag_def js_def
      toLowerCase_def)

text \<open>
  C6 (header cells). Row \<open>r\<close> of the table block has one cell per cell of row \<open>r\<close> of the
  table element, in order; the cell made from a source cell is bold and shaded exactly when
  \<open>r = 0\<close> or the lower-cased tag of the source cell is \<open>th\<close>. When the same row of another
  table holds the same cells in another order, each source cell is paired with the same
  table cell as before.
\<close>

theorem table_header_cells:
  assumes r: "r < length (rows tableElement)"
    and r': "r < length (rows tableElement')"
    and perm: "mset (cells (rows tableElement' ! r)) = mset (cells (rows tableElement ! r))"
  shows "length (row_children (table_rows (createTable tableElement) ! r)) =
           length (cells (rows tableElement ! r))
    \<and> (\<forall>c < length (cells (rows tableElement ! r)).
          row_children (table_rows (createTable tableElement) ! r) ! c =
            \<lparr>cell_children =
               [Paragraph [(TextRun (textContent (cells (rows tableElement ! r) ! c)))
                  \<lparr>run_bold := Some (r = 0
                      \<or> toLowerCase (tagName (cells (rows tableElement ! r) ! c)) = js ''th'')\<rparr>]],
             cell_shading =
               (if r = 0 \<or> toLowerCase (tagName (cells (rows tableElement ! r) ! c)) = js ''th''
                then Some (js ''f8f9fa'') else None)\<rparr>)
    \<and> mset (zip (cells (rows tableElement' ! r))
                 (row_children (table_rows (createTable tableElement') ! r))) =
       mset (zip (cells (rows tableElement ! r))
                 (row_children (table_rows (createTable tableElement) ! r)))"
proof -
  have row: "row_children (table_rows (createTable tableElement) ! r) =
               map (createCell r) (cells (rows tableElement ! r))"
    using r by (rule createTable_row)
  have row': "row_children (table_rows (createTable tableElement') ! r) =
               map (createCell r) (cells (rows tableElement' ! r))"
    using r' by (rule createTable_row)
  have a: "length (row_children (table_rows (createTable tableElement) ! r)) =
           length (cells (rows tableElement ! r))"
    by (simp add: row)
  have b: "\<forall>c < length (cells (rows tableElement ! r)).
          row_children (table_rows (createTable tableElement) ! r) ! c =
            \<lparr>cell_children =
               [Paragraph [(TextRun (textContent (cells (rows tableElement ! r) ! c)))
                  \<lparr>run_bold := Some (r = 0
                      \<or> toLowerCase (tagName (cells (rows tableElement ! r) ! c)) = js ''th'')\<rparr>]],
             cell_shading =
               (if r = 0 \<or> toLowerCase (tagName (cells (rows tableElement ! r) ! c)) = js ''th''
                then Some (js ''f8f9fa'') else None)\<rparr>"
    by (simp add: row createCell_def isHeader_def)
  have c: "mset (zip (cells (rows tableElement' ! r))
                 (row_children (table_rows (createTable tableElement') ! r))) =
       mset (zip (cells (rows tableElement ! r))
                 (row_children (table_rows (createTable tableElement) ! r)))"
    unfolding row row' zip_map_self
    by (simp add: perm)
  from a b c show ?thesis by blast
qed

text \<open>
  The second row of the example table, with a \<open>td\<close> and a \<open>th\<close> cell in either order: the
  \<open>td\<close> cell is plain and the \<open>th\<close> cell is a header.
\<close>

theorem table_header_cells_witness:
  "row_children
     (table_rows
        (createTable
           (exampleTable [Element (js ''TD'') [TextNode (js ''b'')],
                          Element (js ''TH'') [TextNode (js ''c'')]])) ! 1) ! 0 =
     \<lparr>cell_children = [Paragraph [(TextRun (js ''b''))\<lparr>run_bold := Some False\<rparr>]],
      cell_shading = None\<rparr>
   \<and> row_children
     (table_rows
        (createTable
           (exampleTable [Element (js ''TD'') [TextNode (js ''b'')],
                          Element (js ''TH'') [TextNode (js ''c'')]])) ! 1) ! 1 =
     \<lparr>cell_children = [Paragraph [(TextRun (js ''c''))\<lparr>run_bold := Some True\<rparr>]],
      cell_shading = Some (js ''f8f9fa'')\<rparr>"
proof -
  let ?td = "Element (js ''TD'') [TextNode (js ''b'')]"
  let ?th = "Element (js ''TH'') [TextNode (js ''c'')]"
  have cells: "cells (rows (exampleTable [?td, ?th]) ! 1) = [?td, ?th]"
    unfolding rows_exampleTable
    by (simp add: cells_def children_def hasTag_def js_def toLowerCase_def)
  have cells': "cells (rows (exampleTable [?th, ?td]) ! 1) = [?th, ?td]"
    unfolding rows_exampleTable
    by (simp add: cells_def children_def hasTag_def js_def toLowerCase_def)
  have h1: "1 < length (rows (exampleTable [?td, ?th]))" by (simp add: rows_exampleTable)
  have h2: "1 < length (rows (exampleTable [?th, ?td]))" by (simp add: rows_exampleTable)
  have h3: "mset (cells (rows (exampleTable [?th, ?td]) ! 1)) =
            mset (cells (rows (exampleTable [?td, ?th]) ! 1))"
    unfolding cells cells' by simp
  from table_header_cells [OF h1 h2 h3] show ?thesis
    unfolding cells by (simp add: js_def toLowerCase_def)
qed

section \<open>The assembled block sequence\<close>

text \<open>
  C7 (metadata toggle). Without \<open>includeMetadata\<close> (false or absent) the blocks are the title,
  the body blocks and the footer, so the body starts right after the title; with
  \<open>includeMetadata\<close> the timestamp paragraph and then the format paragraph stand between the
  title and the body, and nothing else does. The timestamp paragraph is the line
  \<open>Exported:\<close> with the date and the time, the format paragraph the fixed label.
\<close>

theorem sections_metadata_toggle:
  "sections e h t \<lparr>includeMetadata = Some False, customFilename = f\<rparr> =
     ParagraphBlock (titleParagraph t)
       # processHtmlElements (children (parseFromString e h))
       @ [ParagraphBlock (footerParagraph e)]
   \<and> sections e h t \<lparr>includeMetadata = None, customFilename = f\<rparr> =
     ParagraphBlock (titleParagraph t)
       # processHtmlElements (children (parseFromString e h))
       @ [ParagraphBlock (footerParagraph e)]
   \<and> sections e h t \<lparr>includeMetadata = Some True, customFilename = f\<rparr> =
     ParagraphBlock (titleParagraph t) # ParagraphBlock (timestampParagraph e)
       # ParagraphBlock formatParagraph
       # processHtmlElements (children (parseFromString e h))
       @ [ParagraphBlock (footerParagraph e)]
   \<and> map run_text (par_children (timestampParagraph e)) =
       [js ''Exported: '' @ nowLocaleDateString e @ js '' '' @ nowLocaleTimeString e]
   \<and> map run_text (par_children formatParagraph) = [js ''Format: Microsoft Word Document'']"
  by (simp add: sections_def timestampParagraph_def formatParagraph_def Paragraph_def
      TextRun_def)

section \<open>Paragraphs\<close>

text \<open>
  C8 (empty paragraph). A body of one \<open>p\<close> element without children yields one paragraph
  block with one run, whose text is empty. A paragraph never has zero runs: its runs are
  those of the inline formatter, or the single plain run of the element's text content when
  the inline formatter yields none.
\<close>

theorem createParagraph_never_without_runs:
  "processHtmlElements [Element (js ''P'') []] =
     [ParagraphBlock ((Paragraph [TextRun []])\<lparr>par_spacing_after := Some 200\<rparr>)]
   \<and> par_children (createParagraph element) \<noteq> []
   \<and> par_children (createParagraph element) =
       (if processInlineElements element [] = [] then [TextRun (textContent element)]
        else processInlineElements element [])"
  by (simp add: processElement_def createParagraph_def processInlineElements_def js_def
      toLowerCase_def Paragraph_def Let_def)

text \<open>
  C9 (other tags), as stated: an unrecognized tag with non-empty text content yields a
  paragraph. The source tests the trimmed text, so a \<open>div\<close> holding one space has non-empty
  text content and yields no block.
\<close>

theorem other_tag_blank_text_counterexample:
  "toLowerCase (tagName (Element (js ''DIV'') [TextNode (js '' '')])) \<notin> set recognizedTags
   \<and> textContent (Element (js ''DIV'') [TextNode (js '' '')]) \<noteq> []
   \<and> processHtmlElements [Element (js ''DIV'') [TextNode (js '' '')]] = []"
  by (simp add: recognizedTags_def processElement_def js_def toLowerCase_def trim_def
      isWhiteSpace_def)

text \<open>
  The tag test follows \<open>toLowerCase\<close> beyond ASCII: a tag that spells \<open>BLOCKQUOTE\<close> with
  U+212A for the K is a recognized tag, and yields the quote block.
\<close>

lemma kelvin_sign_blockquote:
  "toLowerCase (js ''BLOC'' @ [0x212A] @ js ''QUOTE'') \<in> set recognizedTags
   \<and> processHtmlElements [Element (js ''BLOC'' @ [0x212A] @ js ''QUOTE'') [TextNode (js ''q'')]] =
       [ParagraphBlock (createBlockquote (js ''q''))]"
  by (simp add: recognizedTags_def processElement_def js_def toLowerCase_def)

text \<open>
  C9, amended. An element whose lower-cased tag is none of the recognized ones yields the one
  paragraph block of \<open>createParagraph\<close> when its text content is not blank (it has a code
  unit that \<open>trim\<close> keeps), and no block when it is blank.
\<close>

theorem other_tag_paragraph_or_nothing:
  assumes "toLowerCase (tagName element) \<notin> set recognizedTags"
  shows "processHtmlElements [element] =
           (if trim (textContent element) \<noteq> [] then [ParagraphBlock (createParagraph element)]
            else [])"
  using assms by (simp add: recognizedTags_def processElement_def Let_def)

theorem other_tag_paragraph_or_nothing_witness:
  "processHtmlElements [Element (js ''DIV'') [TextNode (js ''hi'')]] =
     [ParagraphBlock ((Paragraph [TextRun (js ''hi'')])\<lparr>par_spacing_after := Some 200\<rparr>)]
   \<and> processHtmlElements [Element (js ''SPAN'') []] = []"
proof -
  have d: "toLowerCase (tagName (Element (js ''DIV'') [TextNode (js ''hi'')]))
             \<notin> set recognizedTags"
    by (simp add: recognizedTags_def js_def toLowerCase_def)
  have s: "toLowerCase (tagName (Element (js ''SPAN'') [])) \<notin> set recognizedTags"
    by (simp add: recognizedTags_def js_def toLowerCase_def)
  show ?thesis
    using other_tag_paragraph_or_nothing [OF d] other_tag_paragraph_or_nothing [OF s]
    by (simp add: createParagraph_def processInlineElements_def js_def trim_def
        isWhiteSpace_def Let_def)
qed

end
